theory Spec2Isabelle
  imports Complex_Main
begin

section \<open>JavaScript values shared by the modules\<close>

text \<open>
  A thrown exception or a rejected promise is a value of \<open>error\<close>: \<open>Rejected\<close> is the
  failure of an external service call, \<open>TypeError\<close> a property read on \<open>undefined\<close>,
  \<open>SyntaxError\<close> a failed \<open>JSON.parse\<close>. A computation that may throw returns
  \<open>error + 'a\<close> with \<open>Inl\<close> the exception. Strings are \<open>string\<close>; numbers that the code
  only copies or tests for truthiness are \<open>real\<close>; an \<open>ArrayBuffer\<close> is its list of bytes.
\<close>

datatype error = Rejected | TypeError | SyntaxError

datatype role = System | User | Assistant | Tool

type_synonym bytes = "nat list"

text \<open>
  \<open>String.prototype.trim\<close> removes white space and line terminators from both ends. Of
  the code units a \<open>char\<close> can hold these are TAB, LF, VT, FF, CR, SPACE and NBSP.
\<close>

definition is_whitespace :: "char \<Rightarrow> bool" where
  "is_whitespace c =
     (c \<in> set [CHR 0x09, CHR 0x0A, CHR 0x0B, CHR 0x0C, CHR 0x0D, CHR 0x20, CHR 0xA0])"

definition trim :: "string \<Rightarrow> string" where
  "trim s = rev (dropWhile is_whitespace (rev (dropWhile is_whitespace s)))"

text \<open>\<open>parts.join(sep)\<close> of an array of strings.\<close>

fun join :: "string \<Rightarrow> string list \<Rightarrow> string" where
  "join sep [] = []"
| "join sep [x] = x"
| "join sep (x # y # ys) = x @ sep @ join sep (y # ys)"

text \<open>Truthiness of a number (\<open>0\<close> is falsy) and of a possibly missing string.\<close>

definition truthy_num :: "real option \<Rightarrow> bool" where
  "truthy_num v = (case v of None \<Rightarrow> False | Some x \<Rightarrow> x \<noteq> 0)"

definition truthy_str :: "string option \<Rightarrow> bool" where
  "truthy_str v = (case v of None \<Rightarrow> False | Some s \<Rightarrow> s \<noteq> [])"

text \<open>\<open>v || d\<close> for a possibly missing string \<open>v\<close>.\<close>

definition or_else :: "string option \<Rightarrow> string \<Rightarrow> string" where
  "or_else v d = (case v of None \<Rightarrow> d | Some s \<Rightarrow> if s = [] then d else s)"

text \<open>
  The timeline entry of the pages and of the analysis route:
  \<open>{role, content, id, buffer, sentiment?, isSystemNotification?}\<close>.
\<close>

record message =
  role :: role
  content :: string
  msg_id :: string
  buffer :: bytes
  sentiment :: "string option"
  isSystemNotification :: "bool option"

section \<open>The analysis route: \<open>searchLocation\<close>, \<open>searchPerson\<close>, \<open>analyzeConversation\<close>, \<open>POST\<close>\<close>

text \<open>
  The object a tool's \<open>execute\<close> returns. The two tools return objects with different
  fields and \<open>analyzeConversation\<close> reads them dynamically, so one record holds the fields
  of both, a field the object does not have being \<open>None\<close>.
\<close>

record tool_output =
  latitude :: "real option"
  longitude :: "real option"
  address :: "string option"
  confidence :: "string option"
  status :: "string option"
  message :: "string option"
  source :: "string option"
  name :: "string option"
  age :: "real option"
  background :: "string option"

definition no_fields :: tool_output where
  "no_fields = \<lparr>latitude = None, longitude = None, address = None, confidence = None,
     status = None, message = None, source = None, name = None, age = None,
     background = None\<rparr>"

text \<open>
  What the route does to the outside world, in order: a call of \<open>jigsaw.web.search\<close> with
  its query, a tool-less \<open>generateText\<close> with its user prompt, and the tool-enabled
  \<open>generateText\<close> of \<open>analyzeConversation\<close> with its messages and \<open>maxSteps\<close>.
\<close>

datatype route_call =
    WebSearch string
  | ExtractText string
  | AnalyzeText "(role \<times> string) list" nat

text \<open>The reply of the biography extraction once \<open>JSON.parse\<close> has run on it.\<close>

datatype person_reply =
    Unparseable
  | ParsedNull
  | Parsed "real option" "string option"

text \<open>
  A tool result of a step, as the generation library hands it over: the library names
  the tool under the key \<open>toolName\<close>. \<open>tr_name\<close> is what the code reads,
  \<open>toolResult.name\<close>: the value of a key \<open>name\<close>, or \<open>None\<close> (\<open>undefined\<close>) for a
  result without such a key, which is how the library's results are. \<open>tr_result\<close> is
  \<open>toolResult.result\<close>, the object the tool returned.
\<close>

record tool_result =
  toolName :: string
  tr_name :: "string option"
  tr_result :: "tool_output option"

record step =
  toolCalls :: "string list"
  toolResults :: "tool_result list"

text \<open>
  The external collaborators of the route. \<open>web_search q\<close> is the \<open>ai_overview\<close> of the
  search response or the rejection of the call; \<open>coords_llm p\<close> is \<open>generateText\<close> on prompt
  \<open>p\<close>: the call may reject (outer \<open>Inl\<close>), reading the reply may throw (inner \<open>Inl\<close>), and
  otherwise the reply's \<open>latitude\<close> and \<open>longitude\<close> are numbers or not (\<open>None\<close>);
  \<open>analyze_llm\<close> is the tool-enabled \<open>generateText\<close>, which runs the tools itself and
  returns its steps. \<open>toFixed4\<close> and \<open>numberToString\<close> print a number and \<open>randomUUID\<close>
  is the id that \<open>crypto.randomUUID()\<close> returns.
\<close>

record route_env =
  web_search :: "string \<Rightarrow> error + string option"
  coords_llm :: "string \<Rightarrow> error + (error + real option \<times> real option)"
  person_llm :: "string \<Rightarrow> error + person_reply"
  analyze_llm :: "(role \<times> string) list \<Rightarrow> error + step list"
  toFixed4 :: "real \<Rightarrow> string"
  numberToString :: "real \<Rightarrow> string"
  randomUUID :: string

definition coords_prompt :: "string \<Rightarrow> string" where
  "coords_prompt text =
     ''Extract latitude and longitude from this text. Return ONLY a JSON object with \"latitude\" and \"longitude\" as number properties. If coordinates aren't found, return null for those fields:''
     @ [CHR 0x0A, CHR 0x0A] @ text"

definition extractCoordinatesWithAI ::
  "route_env \<Rightarrow> string \<Rightarrow> (real option \<times> real option) \<times> route_call list" where
  "extractCoordinatesWithAI env text =
     (if text = [] then ((None, None), [])
      else (case coords_llm env (coords_prompt text) of
              Inl e \<Rightarrow> ((None, None), [ExtractText (coords_prompt text)])
            | Inr (Inl e) \<Rightarrow> ((None, None), [ExtractText (coords_prompt text)])
            | Inr (Inr c) \<Rightarrow> (c, [ExtractText (coords_prompt text)])))"

text \<open>
  \<open>searchLocation.execute\<close>. Nothing outside the inner \<open>try\<close> can throw on a string
  argument, so the outer \<open>catch\<close> has no branch here.
\<close>

definition searchLocation :: "route_env \<Rightarrow> string \<Rightarrow> tool_output \<times> route_call list" where
  "searchLocation env query =
     (if query = [] \<or> length (trim query) < 3 \<or> query = ''I am'' \<or> query = ''breathe''
      then (no_fields\<lparr>status := Some ''skipped'',
              message := Some ''Location query was too vague or short''\<rparr>, [])
      else
        (let searchQuery = ''exact coordinates latitude and longitude of '' @ query in
         case web_search env searchQuery of
           Inl e \<Rightarrow>
             (no_fields\<lparr>status := Some ''error'',
                message := Some ''Failed to retrieve location data''\<rparr>,
              [WebSearch searchQuery])
         | Inr aiOverview \<Rightarrow>
             (case aiOverview of
                None \<Rightarrow>
                  (no_fields\<lparr>status := Some ''no_ai_overview'',
                     message := Some ''No AI overview found''\<rparr>,
                   [WebSearch searchQuery])
              | Some overview \<Rightarrow>
                  if overview = [] then
                    (no_fields\<lparr>status := Some ''no_ai_overview'',
                       message := Some ''No AI overview found''\<rparr>,
                     [WebSearch searchQuery])
                  else
                    (case extractCoordinatesWithAI env overview of
                       ((Some la, Some lo), calls) \<Rightarrow>
                         (no_fields\<lparr>latitude := Some la, longitude := Some lo,
                            address := Some query, confidence := Some ''high'',
                            status := Some ''success'', source := Some ''ai_overview''\<rparr>,
                          WebSearch searchQuery # calls)
                     | (_, calls) \<Rightarrow>
                         (no_fields\<lparr>status := Some ''no_coordinates'',
                            message := Some ''No coordinates found in AI overview''\<rparr>,
                          WebSearch searchQuery # calls)))))"

definition person_prompt :: "string \<Rightarrow> string \<Rightarrow> string" where
  "person_prompt nm overview =
     ''Extract biographical information about '' @ nm @
     '' from this text. Return ONLY a JSON object with \"age\" as a number (or null if not found) and \"background\" as a concise description:''
     @ [CHR 0x0A, CHR 0x0A] @ overview"

text \<open>
  \<open>searchPerson.execute\<close>. A reply that does not parse falls back to the first 200
  characters of the overview; a reply that parses to \<open>null\<close> throws at \<open>parsed.age\<close>, inside
  the inner \<open>try\<close>.
\<close>

definition searchPerson :: "route_env \<Rightarrow> string \<Rightarrow> tool_output \<times> route_call list" where
  "searchPerson env nm =
     (if nm = [] \<or> length (trim nm) < 3 \<or> nm = ''I am''
      then (no_fields\<lparr>name := Some nm,
              background := Some ''Name query was too vague or short'',
              status := Some ''skipped''\<rparr>, [])
      else
        (let searchQuery = nm @ '' person biography information age background'' in
         case web_search env searchQuery of
           Inl e \<Rightarrow>
             (no_fields\<lparr>name := Some nm,
                background := Some ''No information found (API error)'',
                status := Some ''error''\<rparr>,
              [WebSearch searchQuery])
         | Inr aiOverview \<Rightarrow>
             (if \<not> truthy_str aiOverview then
                (no_fields\<lparr>name := Some nm, background := Some ''No information found'',
                   status := Some ''no_ai_overview''\<rparr>,
                 [WebSearch searchQuery])
              else
                (let overview = or_else aiOverview [];
                     calls = [WebSearch searchQuery, ExtractText (person_prompt nm overview)]
                 in case person_llm env (person_prompt nm overview) of
                      Inl e \<Rightarrow>
                        (no_fields\<lparr>name := Some nm,
                           background := Some ''No information found (API error)'',
                           status := Some ''error''\<rparr>, calls)
                    | Inr ParsedNull \<Rightarrow>
                        (no_fields\<lparr>name := Some nm,
                           background := Some ''No information found (API error)'',
                           status := Some ''error''\<rparr>, calls)
                    | Inr Unparseable \<Rightarrow>
                        (no_fields\<lparr>name := Some nm,
                           background := Some (take 200 overview),
                           status := Some ''success'', source := Some ''ai_overview''\<rparr>, calls)
                    | Inr (Parsed a b) \<Rightarrow>
                        (no_fields\<lparr>name := Some nm,
                           age := (if truthy_num a then a else None),
                           background := Some (or_else b (take 200 overview)),
                           status := Some ''success'', source := Some ''ai_overview''\<rparr>,
                         calls)))))"

text \<open>
  The value \<open>analyzeConversation\<close> returns and the JSON body \<open>POST\<close> answers with (which
  names the profile \<open>caller\<close>).
\<close>

record analysis =
  location :: "tool_output option"
  callerProfile :: "tool_output option"
  newMessage :: "message option"

record post_response =
  resp_location :: "tool_output option"
  resp_caller :: "tool_output option"
  resp_newMessage :: "message option"

definition nothing_found :: analysis where
  "nothing_found = \<lparr>location = None, callerProfile = None, newMessage = None\<rparr>"

text \<open>
  The body of the loop over \<open>step.toolResults\<close>; the accumulator is
  \<open>(location, callerProfile, foundInfo)\<close>.
\<close>

definition read_tool_result ::
  "tool_output option \<times> tool_output option \<times> bool \<Rightarrow> tool_result \<Rightarrow>
   tool_output option \<times> tool_output option \<times> bool" where
  "read_tool_result acc t =
     (case acc of (loc, profile, foundInfo) \<Rightarrow>
        (case tr_result t of
           None \<Rightarrow> acc
         | Some r \<Rightarrow>
             if tr_name t = Some ''searchLocation'' then
               (if truthy_num (latitude r) \<and> truthy_num (longitude r)
                then (Some r, profile, True) else acc)
             else if tr_name t = Some ''searchPerson'' then
               (if truthy_str (background r) \<and> background r \<noteq> Some ''No background found''
                then (loc, Some r, True) else acc)
             else acc))"

definition read_steps :: "step list \<Rightarrow> tool_output option \<times> tool_output option \<times> bool" where
  "read_steps steps =
     foldl (\<lambda>acc s. foldl read_tool_result acc (toolResults s)) (None, None, False) steps"

definition notificationParts ::
  "route_env \<Rightarrow> tool_output option \<Rightarrow> tool_output option \<Rightarrow> string list" where
  "notificationParts env loc profile =
     (case loc of
        None \<Rightarrow> []
      | Some l \<Rightarrow>
          (case (latitude l, longitude l) of
             (Some la, Some lo) \<Rightarrow>
               if la \<noteq> 0 \<and> lo \<noteq> 0 then
                 [''Location identified: '' @ or_else (address l) ''Unknown'' @ '' ('' @
                  toFixed4 env la @ '', '' @ toFixed4 env lo @ '')'']
               else []
           | _ \<Rightarrow> []))
     @
     (case profile of
        None \<Rightarrow> []
      | Some p \<Rightarrow>
          if truthy_str (name p) then
            (''Caller identified: '' @ or_else (name p) [] @
               (case age p of
                  None \<Rightarrow> []
                | Some a \<Rightarrow> if a \<noteq> 0 then '', age '' @ numberToString env a else []))
            # (if truthy_str (background p)
               then [''Background: '' @ or_else (background p) []] else [])
          else [])"

text \<open>The \<open>try\<close> block of \<open>analyzeConversation\<close>: \<open>Inl\<close> is an exception leaving it.\<close>

definition analyzeConversation_try ::
  "route_env \<Rightarrow> message list \<Rightarrow> (error + analysis) \<times> route_call list" where
  "analyzeConversation_try env msgs =
     (let chat = map (\<lambda>m. (role m, content m)) msgs in
      if length chat < 3 then (Inr nothing_found, [])
      else
        (case analyze_llm env chat of
           Inl e \<Rightarrow> (Inl e, [AnalyzeText chat 4])
         | Inr steps \<Rightarrow>
             (case read_steps steps of (loc, profile, foundInfo) \<Rightarrow>
                (let parts = notificationParts env loc profile in
                 (Inr \<lparr>location = loc, callerProfile = profile,
                        newMessage =
                          (if foundInfo \<and> parts \<noteq> [] then
                             Some \<lparr>role = Assistant,
                                    content = ''[System] '' @ join ''. '' parts,
                                    msg_id = randomUUID env, buffer = [],
                                    sentiment = None, isSystemNotification = Some True\<rparr>
                           else None)\<rparr>,
                  [AnalyzeText chat 4])))))"

text \<open>\<open>analyzeConversation\<close>: the \<open>try\<close> block and its \<open>catch\<close>, which returns the nulls.\<close>

definition analyzeConversation ::
  "route_env \<Rightarrow> message list \<Rightarrow> (error + analysis) \<times> route_call list" where
  "analyzeConversation env msgs =
     (case analyzeConversation_try env msgs of
        (Inl e, calls) \<Rightarrow> (Inr nothing_found, calls)
      | (Inr a, calls) \<Rightarrow> (Inr a, calls))"

text \<open>
  \<open>POST\<close>: the request body is the outcome of \<open>req.json()\<close>, which throws on a malformed
  body.
\<close>

definition POST ::
  "route_env \<Rightarrow> error + message list \<Rightarrow> (error + post_response) \<times> route_call list" where
  "POST env body =
     (case body of
        Inl e \<Rightarrow> (Inl e, [])
      | Inr msgs \<Rightarrow>
          (case analyzeConversation env msgs of
             (Inl e, calls) \<Rightarrow> (Inl e, calls)
           | (Inr a, calls) \<Rightarrow>
               (Inr \<lparr>resp_location = location a, resp_caller = callerProfile a,
                      resp_newMessage = newMessage a\<rparr>, calls)))"

section \<open>The conversation module: \<open>handleUserMessage\<close>, \<open>handleToolResponse\<close>\<close>

text \<open>
  A tool call of a model reply. \<open>tc_arguments\<close> is the outcome of
  \<open>JSON.parse(toolCall.function.arguments)\<close>: the exception it throws, or the fields of
  the parsed object (strings, as the tool schemas declare them).
\<close>

record tool_call =
  tc_id :: string
  tc_name :: string
  tc_arguments :: "error + (string \<times> string) list"

record chat_message =
  chat_role :: role
  chat_content :: "string option"
  tool_calls :: "tool_call list option"
  tool_call_id :: "string option"

record conversation_state =
  history :: "chat_message list"
  isActive :: bool
  hasEnded :: bool
  endReason :: "string option"

text \<open>The \<open>{response, hasEnded}\<close> object a turn resolves to.\<close>

record reply =
  response :: string
  reply_hasEnded :: bool

text \<open>
  The outside world of the module: a \<open>groq.chat.completions.create\<close> request (with the
  tool list or without, and the messages sent) and the run of one of the three tool
  functions with its argument.
\<close>

datatype conv_call =
    ChatCompletion bool "chat_message list"
  | ToolRun string "string option"

text \<open>
  \<open>chat\<close> answers a completion request with the messages of \<open>response.choices\<close> or
  rejects. The three tool functions only build the text of the tool message
  (\<open>searchMap\<close> also opens a browser window, \<open>endCall\<close> reads the clock); \<open>searchMap\<close>
  needs its argument, the other two accept \<open>undefined\<close>.
\<close>

record conv_env =
  chat :: "bool \<Rightarrow> chat_message list \<Rightarrow> error + chat_message list"
  searchMap :: "string \<Rightarrow> string"
  searchPersonMock :: "string option \<Rightarrow> string"
  endCall :: "string option \<Rightarrow> string"

definition operatorPrompt :: string where
  "operatorPrompt = ''You are a 911 operator on phone so talk accordingly (keep your responses short). You should gather information about the emergency situation and the caller's whereabouts. Do not reveal your capabilities. Respond as a real 911 operator would. If the emergency has been fully addressed or help is confirmed to be on the way, use the end-call tool to conclude the conversation.''"

text \<open>The initial value of the global \<open>conversationState\<close>, and \<open>resetConversation\<close>.\<close>

definition initialState :: conversation_state where
  "initialState = \<lparr>history = [], isActive = False, hasEnded = False, endReason = None\<rparr>"

definition resetConversation :: "conversation_state \<Rightarrow> conversation_state" where
  "resetConversation s = initialState"

definition push_tool_message ::
  "conversation_state \<Rightarrow> tool_call \<Rightarrow> string \<Rightarrow> conversation_state" where
  "push_tool_message s tc functionResponse =
     s\<lparr>history := history s @
        [\<lparr>chat_role = Tool, chat_content = Some functionResponse, tool_calls = None,
          tool_call_id = Some (tc_id tc)\<rparr>]\<rparr>"

text \<open>
  One iteration of \<open>for (const toolCall of toolCalls)\<close>. Every exception of the
  iteration is thrown before its first assignment.
\<close>

definition dispatch ::
  "conv_env \<Rightarrow> conversation_state \<Rightarrow> tool_call \<Rightarrow>
   error + conversation_state \<times> conv_call list" where
  "dispatch env s tc =
     (case tc_arguments tc of
        Inl e \<Rightarrow> Inl e
      | Inr args \<Rightarrow>
          if tc_name tc = ''search-map'' then
            (case map_of args ''query'' of
               None \<Rightarrow> Inl TypeError
             | Some q \<Rightarrow>
                 Inr (push_tool_message s tc (searchMap env q),
                      [ToolRun ''search-map'' (Some q)]))
          else if tc_name tc = ''search-person'' then
            Inr (push_tool_message s tc (searchPersonMock env (map_of args ''query'')),
                 [ToolRun ''search-person'' (map_of args ''query'')])
          else if tc_name tc = ''end-call'' then
            Inr (push_tool_message
                   (s\<lparr>hasEnded := True, endReason := map_of args ''reason''\<rparr>) tc
                   (endCall env (map_of args ''reason'')),
                 [ToolRun ''end-call'' (map_of args ''reason'')])
          else Inr (push_tool_message s tc [], []))"

text \<open>The whole \<open>for\<close> loop: the exception that ended it (if any), the state and the runs.\<close>

fun run_tools ::
  "conv_env \<Rightarrow> conversation_state \<Rightarrow> tool_call list \<Rightarrow>
   error option \<times> conversation_state \<times> conv_call list" where
  "run_tools env s [] = (None, s, [])"
| "run_tools env s (tc # tcs) =
     (case dispatch env s tc of
        Inl e \<Rightarrow> (Some e, s, [])
      | Inr (s', calls) \<Rightarrow>
          (case run_tools env s' tcs of (r, s'', calls') \<Rightarrow> (r, s'', calls @ calls')))"

text \<open>\<open>${conversationState.endReason}\<close> prints a missing reason as \<open>undefined\<close>.\<close>

definition handleToolResponse ::
  "conv_env \<Rightarrow> conversation_state \<Rightarrow> (error + reply) \<times> conversation_state \<times> conv_call list"
  where
  "handleToolResponse env s =
     (if hasEnded s then
        (Inr \<lparr>response = ''Call ended. '' @
                 (case endReason s of None \<Rightarrow> ''undefined'' | Some r \<Rightarrow> r) @
                 ''. Emergency services have been dispatched to your location. Please stay safe.'',
               reply_hasEnded = True\<rparr>, s, [])
      else
        (case chat env False (history s) of
           Inl e \<Rightarrow> (Inl e, s, [ChatCompletion False (history s)])
         | Inr [] \<Rightarrow> (Inl TypeError, s, [ChatCompletion False (history s)])
         | Inr (responseMessage # others) \<Rightarrow>
             (Inr \<lparr>response = or_else (chat_content responseMessage)
                                ''I'm processing your emergency. Stay on the line.'',
                    reply_hasEnded = hasEnded s\<rparr>,
              s\<lparr>history := history s @ [responseMessage]\<rparr>,
              [ChatCompletion False (history s)])))"

text \<open>
  The first statement of \<open>handleUserMessage\<close>: a conversation that is not active is
  replaced by a fresh one holding the system prompt.
\<close>

definition activate :: "conversation_state \<Rightarrow> conversation_state" where
  "activate s0 =
     (if \<not> isActive s0 then
        \<lparr>history = [\<lparr>chat_role = System, chat_content = Some operatorPrompt,
                      tool_calls = None, tool_call_id = None\<rparr>],
         isActive = True, hasEnded = False, endReason = None\<rparr>
      else s0)"

definition user_entry :: "string \<Rightarrow> chat_message" where
  "user_entry userMessage =
     \<lparr>chat_role = User, chat_content = Some userMessage, tool_calls = None,
      tool_call_id = None\<rparr>"

text \<open>
  \<open>handleUserMessage\<close> on the global state \<open>s0\<close>: the value the promise settles to
  (\<open>Inl\<close> when it rejects), the global state it leaves, and its calls to the outside.
\<close>

definition handleUserMessage ::
  "conv_env \<Rightarrow> conversation_state \<Rightarrow> string \<Rightarrow>
   (error + reply) \<times> conversation_state \<times> conv_call list" where
  "handleUserMessage env s0 userMessage =
     (let s1 = activate s0 in
      if hasEnded s1 then
        (Inr \<lparr>response = ''This emergency call has already ended. Reason: '' @
                 or_else (endReason s1) ''Emergency services have been dispatched.'',
               reply_hasEnded = True\<rparr>, s1, [])
      else
        (let s2 = s1\<lparr>history := history s1 @ [user_entry userMessage]\<rparr>;
             request = ChatCompletion True (history s2) in
         case chat env True (history s2) of
           Inl e \<Rightarrow> (Inl e, s2, [request])
         | Inr [] \<Rightarrow> (Inl TypeError, s2, [request])
         | Inr (responseMessage # others) \<Rightarrow>
             (let s3 = s2\<lparr>history := history s2 @ [responseMessage]\<rparr> in
              case tool_calls responseMessage of
                Some (tc # tcs) \<Rightarrow>
                  (case run_tools env s3 (tc # tcs) of
                     (Some e, s4, runs) \<Rightarrow> (Inl e, s4, request # runs)
                   | (None, s4, runs) \<Rightarrow>
                       (case handleToolResponse env s4 of
                          (r, s5, calls) \<Rightarrow> (r, s5, request # runs @ calls)))
              | _ \<Rightarrow>
                  (Inr \<lparr>response = or_else (chat_content responseMessage)
                                     ''I'm connecting you with emergency services.'',
                         reply_hasEnded = hasEnded s3\<rparr>, s3, [request]))))"

text \<open>\<open>converse\<close> hands the message to \<open>handleUserMessage\<close> and copies its answer.\<close>

definition converse ::
  "conv_env \<Rightarrow> conversation_state \<Rightarrow> string \<Rightarrow>
   (error + reply) \<times> conversation_state \<times> conv_call list" where
  "converse env s0 userMessage =
     (case handleUserMessage env s0 userMessage of
        (Inl e, s, calls) \<Rightarrow> (Inl e, s, calls)
      | (Inr r, s, calls) \<Rightarrow>
          (Inr \<lparr>response = response r, reply_hasEnded = reply_hasEnded r\<rparr>, s, calls))"

text \<open>Whether a call to the outside is a request to the language model.\<close>

fun is_completion :: "conv_call \<Rightarrow> bool" where
  "is_completion (ChatCompletion tools msgs) = True"
| "is_completion (ToolRun f arg) = False"

section \<open>The call page: turn coordination (\<open>Home\<close>, \<open>respond\<close>) and enrichment (\<open>asyncChecks\<close>)\<close>

text \<open>
  The audio element behind the ref \<open>audioSpeaker\<close>, the two panels, and the outside world
  of the page: the requests to the text model, the speech synthesis, the sentiment and
  summary services, the tool decision, the place lookup and the person research.
\<close>

record speaker =
  paused :: bool
  src :: "bytes option"
  currentTime :: real
  playbackRate :: real

record location_panel =
  panel_address :: string
  panel_latitude :: real
  panel_longitude :: real

record research_panel =
  overview :: string
  images :: "string list"

datatype page_call =
    GenerateText "(role \<times> string) list"
  | TextToSpeech string
  | Sentiment string
  | Summary string
  | GenerateObject string
  | PlacesSearch string
  | ResearchSearch string

text \<open>
  How far one call of \<open>respond\<close> has run: waiting for the text, for the synthesised
  speech (holding \<open>responseText\<close>), for the audio bytes, or over: returned early,
  returned after appending its message, or rejected.
\<close>

datatype progress =
    AwaitText
  | AwaitSpeech string
  | AwaitBlob string
  | Abandoned
  | Committed
  | Failed error

text \<open>
  One call of \<open>respond\<close>. \<open>messages\<close> and \<open>isSpeaking\<close> are \<open>const\<close> bindings of one
  render of \<open>Home\<close>, and \<open>respond\<close> is a function created in that render: inside it both
  names keep the values of the render whose effect called it, whatever the state
  setters do later (every setter builds a new array, none assigns into the bound one).
  \<open>seen_messages\<close> and \<open>seen_isSpeaking\<close> are these two values; \<open>lastID\<close> is the local
  constant of the call.
\<close>

record attempt =
  seen_messages :: "message list"
  seen_isSpeaking :: bool
  lastID :: "string option"
  progress :: progress

text \<open>
  The state of the page: the React state variables, the audio element of the ref
  (\<open>None\<close> before the mount effect has created it), the calls of \<open>respond\<close> made so far
  and the requests sent.
\<close>

record home =
  messages :: "message list"
  isSpeaking :: bool
  onCall :: bool
  lastSentiment :: "string option"
  summary :: "string list option"
  locationSearch :: "location_panel option"
  humanResearch :: "research_panel option"
  audioSpeaker :: "speaker option"
  attempts :: "attempt list"
  requests :: "page_call list"

text \<open>The page after its first render and the mount effect \<open>new Audio()\<close>.\<close>

definition mounted :: home where
  "mounted = \<lparr>messages = [], isSpeaking = False, onCall = False, lastSentiment = None,
     summary = None, locationSearch = None, humanResearch = None,
     audioSpeaker = Some \<lparr>paused = True, src = None, currentTime = 0, playbackRate = 1\<rparr>,
     attempts = [], requests = []\<rparr>"

text \<open>\<open>messages?.[messages.length - 1]?.id || null\<close>\<close>

definition last_id :: "message list \<Rightarrow> string option" where
  "last_id msgs =
     (if msgs = [] then None
      else if msg_id (last msgs) = [] then None
      else Some (msg_id (last msgs)))"

definition prompt_entry :: "message \<Rightarrow> role \<times> string" where
  "prompt_entry m =
     (role m,
      content m @
        (if truthy_str (sentiment m)
         then [CHR 0x0A, CHR 0x0A] @ ''User Sentiment: '' @ or_else (sentiment m) []
         else []))"

text \<open>
  \<open>respond\<close> up to its first \<open>await\<close>: it reads \<open>lastID\<close> from the \<open>messages\<close> of its
  render and sends the request for the reply text.
\<close>

definition respond :: "home \<Rightarrow> home" where
  "respond h =
     h\<lparr>attempts := attempts h @
          [\<lparr>seen_messages = messages h, seen_isSpeaking = isSpeaking h,
            lastID = last_id (messages h), progress = AwaitText\<rparr>],
       requests := requests h @ [GenerateText (map prompt_entry (messages h))]\<rparr>"

text \<open>
  The test after each \<open>await\<close>:
  \<open>messages[messages.length - 1].id !== lastID || isSpeaking\<close>, on the bindings of the
  call. It throws when \<open>messages\<close> is empty.
\<close>

definition stale :: "attempt \<Rightarrow> error + bool" where
  "stale a =
     (if seen_messages a = [] then Inl TypeError
      else Inr (Some (msg_id (last (seen_messages a))) \<noteq> lastID a \<or> seen_isSpeaking a))"

text \<open>What an awaited promise of \<open>respond\<close> settles to.\<close>

datatype settled =
    TextReady string
  | SpeechReady
  | BlobReady bytes string
  | Rejection

text \<open>
  \<open>respond\<close> from one \<open>await\<close> to the next (or to its end), in the page state \<open>h\<close> of that
  moment. \<open>BlobReady b i\<close> carries the audio bytes and the id that \<open>crypto.randomUUID()\<close>
  gives the new message. The ref \<open>audioSpeaker.current\<close> and the argument of the updater
  \<open>setMessages((prev) => ...)\<close> are read from \<open>h\<close>.
\<close>

definition respond_resume :: "attempt \<Rightarrow> settled \<Rightarrow> home \<Rightarrow> attempt \<times> home" where
  "respond_resume a r h =
     (case (progress a, r) of
        (AwaitText, TextReady responseText) \<Rightarrow>
          (case stale a of
             Inl e \<Rightarrow> (a\<lparr>progress := Failed e\<rparr>, h)
           | Inr True \<Rightarrow> (a\<lparr>progress := Abandoned\<rparr>, h)
           | Inr False \<Rightarrow>
               (a\<lparr>progress := AwaitSpeech responseText\<rparr>,
                h\<lparr>requests := requests h @ [TextToSpeech responseText]\<rparr>))
      | (AwaitText, Rejection) \<Rightarrow> (a\<lparr>progress := Failed Rejected\<rparr>, h)
      | (AwaitSpeech responseText, SpeechReady) \<Rightarrow>
          (case stale a of
             Inl e \<Rightarrow> (a\<lparr>progress := Failed e\<rparr>, h)
           | Inr True \<Rightarrow> (a\<lparr>progress := Abandoned\<rparr>, h)
           | Inr False \<Rightarrow> (a\<lparr>progress := AwaitBlob responseText\<rparr>, h))
      | (AwaitSpeech responseText, Rejection) \<Rightarrow> (a\<lparr>progress := Failed Rejected\<rparr>, h)
      | (AwaitBlob responseText, BlobReady arrayBuffer newId) \<Rightarrow>
          (case stale a of
             Inl e \<Rightarrow> (a\<lparr>progress := Failed e\<rparr>, h)
           | Inr True \<Rightarrow> (a\<lparr>progress := Abandoned\<rparr>, h)
           | Inr False \<Rightarrow>
               (case audioSpeaker h of
                  None \<Rightarrow> (a\<lparr>progress := Abandoned\<rparr>, h)
                | Some sp \<Rightarrow>
                    (a\<lparr>progress := Committed\<rparr>,
                     h\<lparr>audioSpeaker :=
                          Some \<lparr>paused = False, src = Some arrayBuffer, currentTime = 0,
                                playbackRate = 13 / 10\<rparr>,
                        messages := messages h @
                          [\<lparr>role = Assistant, content = responseText, msg_id = newId,
                            buffer = arrayBuffer, sentiment = None,
                            isSystemNotification = None\<rparr>]\<rparr>)))
      | (AwaitBlob responseText, Rejection) \<Rightarrow> (a\<lparr>progress := Failed Rejected\<rparr>, h)
      | _ \<Rightarrow> (a, h))"

text \<open>
  The effect with dependency \<open>[isSpeaking]\<close>. It runs after a render in which
  \<open>isSpeaking\<close> differs from the render before, with the values of the new render.
\<close>

definition turn_check :: "home \<Rightarrow> home" where
  "turn_check h =
     (if \<not> isSpeaking h then
        (if messages h \<noteq> [] \<and> role (last (messages h)) = User then respond h else h)
      else h)"

definition after_render :: "home \<Rightarrow> home \<Rightarrow> home" where
  "after_render before h = (if isSpeaking before = isSpeaking h then h else turn_check h)"

text \<open>
  What happens to the page: the call button, the two callbacks of the speech detector
  (\<open>SpeechEnd t i b\<close> is \<open>onSpeechEnd\<close> once the transcription \<open>t\<close> has arrived, \<open>i\<close> the
  fresh id and \<open>b\<close> the recording), the end-call button, and the settling of the promise
  that the \<open>k\<close>-th call of \<open>respond\<close> awaits.
\<close>

datatype event =
    HandleCall
  | SpeechStart
  | SpeechEnd string string bytes
  | HandleEndCall
  | Resume nat settled

text \<open>The state updates of one event; they are rendered together.\<close>

definition handle :: "home \<Rightarrow> event \<Rightarrow> home" where
  "handle h ev =
     (case ev of
        HandleCall \<Rightarrow> h\<lparr>onCall := True\<rparr>
      | SpeechStart \<Rightarrow>
          h\<lparr>audioSpeaker := map_option (\<lambda>sp. sp\<lparr>paused := True\<rparr>) (audioSpeaker h),
            isSpeaking := True\<rparr>
      | SpeechEnd transcript newId wavBuffer \<Rightarrow>
          h\<lparr>messages := messages h @
               [\<lparr>role = User, content = transcript, msg_id = newId, buffer = wavBuffer,
                 sentiment = None, isSystemNotification = None\<rparr>],
            isSpeaking := False\<rparr>
      | HandleEndCall \<Rightarrow> h\<lparr>onCall := False, isSpeaking := False\<rparr>
      | Resume k r \<Rightarrow>
          if k < length (attempts h) then
            (case respond_resume (attempts h ! k) r h of
               (a, h') \<Rightarrow> h'\<lparr>attempts := (attempts h')[k := a]\<rparr>)
          else h)"

definition step_home :: "home \<Rightarrow> event \<Rightarrow> home" where
  "step_home h ev = after_render h (handle h ev)"

definition run_home :: "home \<Rightarrow> event list \<Rightarrow> home" where
  "run_home h evs = foldl step_home h evs"

subsection \<open>Enrichment\<close>

record tool_choice =
  query :: "string option"
  should_use :: bool












section \<open>Example inputs\<close>

text \<open>A route whose services all reject.\<close>

definition quiet_env :: route_env where
  "quiet_env = \<lparr>web_search = (\<lambda>q. Inl Rejected), coords_llm = (\<lambda>p. Inl Rejected),
     person_llm = (\<lambda>p. Inl Rejected), analyze_llm = (\<lambda>c. Inl Rejected),
     toFixed4 = (\<lambda>x. []), numberToString = (\<lambda>x. []), randomUUID = ''uuid-0''\<rparr>"

text \<open>A caller's entry of the timeline.\<close>

definition said :: "string \<Rightarrow> string \<Rightarrow> message" where
  "said i t = \<lparr>role = User, content = t, msg_id = i, buffer = [], sentiment = None,
     isSystemNotification = None\<rparr>"

text \<open>
  A web search that answers with an overview while the extractions reject; a search and
  a biography extraction that both answer; and an analysis whose single step holds, in
  the library's shape, what \<open>searchPerson\<close> returns for \<open>John Smith\<close> on them.
\<close>

definition overview_env :: route_env where
  "overview_env =
     quiet_env\<lparr>web_search := (\<lambda>q. Inr (Some ''Pier 39 is a pier in San Francisco''))\<rparr>"

definition biography_env :: route_env where
  "biography_env =
     quiet_env\<lparr>web_search := (\<lambda>q. Inr (Some ''John Smith, 42, is a software engineer from Ohio'')),
       person_llm := (\<lambda>p. Inr (Parsed (Some 42) (Some ''Software engineer from Ohio'')))\<rparr>"

definition profile_step_env :: route_env where
  "profile_step_env = quiet_env\<lparr>analyze_llm := (\<lambda>c.
     Inr [\<lparr>toolCalls = [''searchPerson''],
           toolResults = [\<lparr>toolName = ''searchPerson'', tr_name = None,
             tr_result = Some (fst (searchPerson biography_env ''John Smith''))\<rparr>]\<rparr>])\<rparr>"

definition three_messages :: "message list" where
  "three_messages =
     [said ''u1'' ''Hello'', (said ''a1'' ''What is your emergency?'')\<lparr>role := Assistant\<rparr>,
      said ''u2'' ''My name is John Smith'']"

text \<open>
  A conversation module whose model rejects every request, a model reply that asks for
  one tool, a model that asks for a person search in every reply, and one that asks to
  end the call.
\<close>

definition offline_env :: conv_env where
  "offline_env = \<lparr>chat = (\<lambda>tools msgs. Inl Rejected), searchMap = (\<lambda>q. []),
     searchPersonMock = (\<lambda>q. []), endCall = (\<lambda>r. [])\<rparr>"

definition asks :: "string \<Rightarrow> string \<Rightarrow> string \<Rightarrow> chat_message" where
  "asks f k v = \<lparr>chat_role = Assistant, chat_content = None,
     tool_calls = Some [\<lparr>tc_id = ''call_1'', tc_name = f, tc_arguments = Inr [(k, v)]\<rparr>],
     tool_call_id = None\<rparr>"

definition insistent_env :: conv_env where
  "insistent_env =
     offline_env\<lparr>chat := (\<lambda>tools msgs. Inr [asks ''search-person'' ''query'' ''Bob''])\<rparr>"

definition closing_env :: conv_env where
  "closing_env =
     offline_env\<lparr>chat :=
       (\<lambda>tools msgs. Inr [asks ''end-call'' ''reason'' ''help dispatched''])\<rparr>"

text \<open>
  A \<open>search-map\<close> call whose argument text does not parse, an \<open>end-call\<close> call with a
  reason, and a model whose every reply asks for the given tool calls.
\<close>

definition garbled :: tool_call where
  "garbled = \<lparr>tc_id = ''call_0'', tc_name = ''search-map'', tc_arguments = Inl SyntaxError\<rparr>"

definition end_request :: tool_call where
  "end_request = \<lparr>tc_id = ''call_1'', tc_name = ''end-call'',
     tc_arguments = Inr [(''reason'', ''help dispatched'')]\<rparr>"

definition requesting :: "tool_call list \<Rightarrow> conv_env" where
  "requesting tcs =
     offline_env\<lparr>chat := (\<lambda>tools msgs.
       Inr [\<lparr>chat_role = Assistant, chat_content = None, tool_calls = Some tcs,
             tool_call_id = None\<rparr>])\<rparr>"




text \<open>
  Two utterances in a row, the caller starting to speak a third time, and the three
  promises of the first and of the second call of \<open>respond\<close> settling.
\<close>

definition two_utterances :: "event list" where
  "two_utterances =
     [HandleCall, SpeechStart, SpeechEnd ''There is a fire'' ''u1'' [],
      SpeechStart, SpeechEnd ''At Main and 5th'' ''u2'' []]"

definition interrupted :: "event list" where
  "interrupted = two_utterances @ [SpeechStart]"

definition first_reply :: "event list" where
  "first_reply =
     [Resume 0 (TextReady ''Where are you?''), Resume 0 SpeechReady,
      Resume 0 (BlobReady [] ''a1'')]"

definition second_reply :: "event list" where
  "second_reply =
     [Resume 1 (TextReady ''Help is on the way.''), Resume 1 SpeechReady,
      Resume 1 (BlobReady [] ''a2'')]"


section \<open>Properties of the search tools and of the analysis route\<close>

text \<open>
  Claim C6. \<open>searchLocation\<close> on a query that is empty, or shorter than 3 characters once
  trimmed, or equal to \<open>I am\<close> or \<open>breathe\<close>, and \<open>searchPerson\<close> on a name that is
  empty, or shorter than 3 characters once trimmed, or equal to \<open>I am\<close>, return status
  \<open>skipped\<close> and call nothing outside. On every other argument the first thing each
  tool does is to call the web search, with the query it builds from the argument.
\<close>

theorem search_guard:
  "(q = [] \<or> length (trim q) < 3 \<or> q = ''I am'' \<or> q = ''breathe'' \<longrightarrow>
      status (fst (searchLocation env q)) = Some ''skipped'' \<and> snd (searchLocation env q) = [])
   \<and> (\<not> (q = [] \<or> length (trim q) < 3 \<or> q = ''I am'' \<or> q = ''breathe'') \<longrightarrow>
      (\<exists>rest. snd (searchLocation env q) =
         WebSearch (''exact coordinates latitude and longitude of '' @ q) # rest))
   \<and> (nm = [] \<or> length (trim nm) < 3 \<or> nm = ''I am'' \<longrightarrow>
      status (fst (searchPerson env nm)) = Some ''skipped'' \<and> snd (searchPerson env nm) = [])
   \<and> (\<not> (nm = [] \<or> length (trim nm) < 3 \<or> nm = ''I am'') \<longrightarrow>
      (\<exists>rest. snd (searchPerson env nm) =
         WebSearch (nm @ '' person biography information age background'') # rest))"
proof -
  have loc_skip:
    "status (fst (searchLocation env q)) = Some ''skipped'' \<and> snd (searchLocation env q) = []"
    if "q = [] \<or> length (trim q) < 3 \<or> q = ''I am'' \<or> q = ''breathe''"
    using that by (simp add: searchLocation_def no_fields_def)
  have loc_go:
    "\<exists>rest. snd (searchLocation env q) =
       WebSearch (''exact coordinates latitude and longitude of '' @ q) # rest"
    if "\<not> (q = [] \<or> length (trim q) < 3 \<or> q = ''I am'' \<or> q = ''breathe'')"
    using that
    by (auto simp: searchLocation_def Let_def split: sum.splits option.splits prod.splits)
  have per_skip:
    "status (fst (searchPerson env nm)) = Some ''skipped'' \<and> snd (searchPerson env nm) = []"
    if "nm = [] \<or> length (trim nm) < 3 \<or> nm = ''I am''"
    using that by (simp add: searchPerson_def no_fields_def)
  have per_go:
    "\<exists>rest. snd (searchPerson env nm) =
       WebSearch (nm @ '' person biography information age background'') # rest"
    if "\<not> (nm = [] \<or> length (trim nm) < 3 \<or> nm = ''I am'')"
    using that
    by (auto simp: searchPerson_def Let_def
             split: sum.splits option.splits prod.splits person_reply.splits)
  from loc_skip loc_go per_skip per_go show ?thesis by blast
qed

theorem search_guard_witness:
  "status (fst (searchLocation quiet_env ''I am'')) = Some ''skipped''
   \<and> snd (searchLocation quiet_env ''I am'') = []
   \<and> status (fst (searchPerson quiet_env '' x '')) = Some ''skipped''
   \<and> snd (searchPerson quiet_env '' x '') = []
   \<and> (\<exists>rest. snd (searchLocation quiet_env ''Pier 39'') =
         WebSearch ''exact coordinates latitude and longitude of Pier 39'' # rest)
   \<and> (\<exists>rest. snd (searchPerson quiet_env ''Bob Ross'') =
         WebSearch ''Bob Ross person biography information age background'' # rest)"
  using search_guard [of "''I am''" quiet_env "'' x ''"]
        search_guard [of "''Pier 39''" quiet_env "''Bob Ross''"]
  by (simp add: trim_def is_whitespace_def)

text \<open>
  Claim C9. On fewer than 3 messages \<open>analyzeConversation\<close> returns
  \<open>{location: null, callerProfile: null, newMessage: null}\<close> and \<open>POST\<close> answers with
  the same three nulls (under the keys \<open>location\<close>, \<open>caller\<close>, \<open>newMessage\<close>); neither
  sends a request. The search tools run only inside the tool-enabled \<open>generateText\<close>, so
  with no request no tool has run.
\<close>

theorem too_few_messages:
  "length msgs < 3 \<Longrightarrow>
     analyzeConversation env msgs =
       (Inr \<lparr>location = None, callerProfile = None, newMessage = None\<rparr>, [])
     \<and> POST env (Inr msgs) =
       (Inr \<lparr>resp_location = None, resp_caller = None, resp_newMessage = None\<rparr>, [])"
  by (simp add: POST_def analyzeConversation_def analyzeConversation_try_def nothing_found_def)

theorem too_few_messages_witness:
  "analyzeConversation quiet_env [said ''u1'' ''Hello'', said ''u2'' ''I need help'']
     = (Inr \<lparr>location = None, callerProfile = None, newMessage = None\<rparr>, [])
   \<and> POST quiet_env (Inr [said ''u1'' ''Hello'', said ''u2'' ''I need help''])
     = (Inr \<lparr>resp_location = None, resp_caller = None, resp_newMessage = None\<rparr>, [])"
  using too_few_messages [of "[said ''u1'' ''Hello'', said ''u2'' ''I need help'']" quiet_env]
  by simp

text \<open>
  A tool result without a key \<open>name\<close> enters neither branch of the loop over the tool
  results, whatever it holds.
\<close>

lemma nameless_result_is_skipped: "tr_name t = None \<Longrightarrow> read_tool_result acc t = acc"
  by (simp add: read_tool_result_def split: prod.splits option.splits)

lemma nameless_steps_find_nothing:
  "\<forall>s\<in>set steps. \<forall>t\<in>set (toolResults s). tr_name t = None \<Longrightarrow>
   read_steps steps = (None, None, False)"
proof -
  have inner: "foldl read_tool_result acc ts = acc" if "\<forall>t\<in>set ts. tr_name t = None"
    for acc ts
    using that by (induction ts arbitrary: acc) (simp_all add: nameless_result_is_skipped)
  have outer: "foldl (\<lambda>acc s. foldl read_tool_result acc (toolResults s)) acc steps = acc"
    if "\<forall>s\<in>set steps. \<forall>t\<in>set (toolResults s). tr_name t = None" for acc
    using that by (induction steps arbitrary: acc) (simp_all add: inner)
  assume "\<forall>s\<in>set steps. \<forall>t\<in>set (toolResults s). tr_name t = None"
  then show ?thesis by (simp add: read_steps_def outer)
qed

text \<open>
  Claim C8 (the code departs from it). \<open>searchPerson\<close> finds a biography of
  \<open>John Smith\<close>: its result has the background \<open>Software engineer from Ohio\<close>, which is
  neither empty nor a placeholder, so the claim has it accepted as the caller profile.
  The library hands the result over under \<open>toolName\<close>; the loop of
  \<open>analyzeConversation\<close> asks for \<open>toolResult.name\<close>, finds \<open>undefined\<close>, and never
  reaches its gate on the background: the three nulls are returned.
\<close>

theorem found_profile_is_dropped:
  "fst (searchPerson biography_env ''John Smith'') =
     no_fields\<lparr>name := Some ''John Smith'', age := Some 42,
       background := Some ''Software engineer from Ohio'', status := Some ''success'',
       source := Some ''ai_overview''\<rparr>
   \<and> analyze_llm profile_step_env (map (\<lambda>m. (role m, content m)) three_messages) =
       Inr [\<lparr>toolCalls = [''searchPerson''],
             toolResults = [\<lparr>toolName = ''searchPerson'', tr_name = None,
               tr_result = Some (fst (searchPerson biography_env ''John Smith''))\<rparr>]\<rparr>]
   \<and> fst (analyzeConversation profile_step_env three_messages) =
       Inr \<lparr>location = None, callerProfile = None, newMessage = None\<rparr>"
  by (simp add: searchPerson_def biography_env_def quiet_env_def profile_step_env_def
      three_messages_def said_def analyzeConversation_def analyzeConversation_try_def
      read_steps_def read_tool_result_def notificationParts_def truthy_str_def or_else_def
      truthy_num_def no_fields_def nothing_found_def trim_def is_whitespace_def)

text \<open>
  Claim C4, as stated, fails on \<open>handleUserMessage\<close>: its request to the model stands
  in no \<open>try\<close>, and a rejected request rejects the promise \<open>handleUserMessage\<close> returns.
\<close>

theorem unguarded_model_call:
  "fst (handleUserMessage offline_env initialState ''There is a fire'') = Inl Rejected"
  by (simp add: handleUserMessage_def activate_def initialState_def offline_env_def)

text \<open>
  Claim C4, amended: the failures are caught in the analysis route.
  \<open>analyzeConversation\<close> always returns a value, the three nulls when its model call
  rejects; a rejected web search makes \<open>searchLocation\<close> and \<open>searchPerson\<close> return status
  \<open>error\<close>; a rejected coordinate extraction makes \<open>searchLocation\<close> return status
  \<open>no_coordinates\<close>; a rejected biography extraction makes \<open>searchPerson\<close> return
  status \<open>error\<close>.
\<close>

theorem analysis_catches_failures:
  "(\<exists>a. fst (analyzeConversation env msgs) = Inr a)
   \<and> (analyze_llm env (map (\<lambda>m. (role m, content m)) msgs) = Inl e \<longrightarrow>
        fst (analyzeConversation env msgs) = Inr nothing_found)
   \<and> (\<not> (q = [] \<or> length (trim q) < 3 \<or> q = ''I am'' \<or> q = ''breathe'') \<longrightarrow>
        web_search env (''exact coordinates latitude and longitude of '' @ q) = Inl e \<longrightarrow>
        status (fst (searchLocation env q)) = Some ''error'')
   \<and> (\<not> (q = [] \<or> length (trim q) < 3 \<or> q = ''I am'' \<or> q = ''breathe'') \<longrightarrow>
        web_search env (''exact coordinates latitude and longitude of '' @ q) = Inr (Some ov) \<longrightarrow>
        coords_llm env (coords_prompt ov) = Inl e \<longrightarrow>
        status (fst (searchLocation env q)) = Some (if ov = [] then ''no_ai_overview'' else ''no_coordinates''))
   \<and> (\<not> (nm = [] \<or> length (trim nm) < 3 \<or> nm = ''I am'') \<longrightarrow>
        web_search env (nm @ '' person biography information age background'') = Inl e \<longrightarrow>
        status (fst (searchPerson env nm)) = Some ''error'')
   \<and> (\<not> (nm = [] \<or> length (trim nm) < 3 \<or> nm = ''I am'') \<longrightarrow>
        web_search env (nm @ '' person biography information age background'') = Inr (Some ov) \<longrightarrow>
        ov \<noteq> [] \<longrightarrow> person_llm env (person_prompt nm ov) = Inl e \<longrightarrow>
        status (fst (searchPerson env nm)) = Some ''error'')"
proof -
  have a: "\<exists>a. fst (analyzeConversation env msgs) = Inr a"
    by (auto simp: analyzeConversation_def split: prod.splits sum.splits)
  have b: "fst (analyzeConversation env msgs) = Inr nothing_found"
    if "analyze_llm env (map (\<lambda>m. (role m, content m)) msgs) = Inl e"
    using that
    by (simp add: analyzeConversation_def analyzeConversation_try_def Let_def)
  have c: "status (fst (searchLocation env q)) = Some ''error''"
    if "\<not> (q = [] \<or> length (trim q) < 3 \<or> q = ''I am'' \<or> q = ''breathe'')"
       "web_search env (''exact coordinates latitude and longitude of '' @ q) = Inl e"
    using that by (simp add: searchLocation_def no_fields_def)
  have d: "status (fst (searchLocation env q)) = Some (if ov = [] then ''no_ai_overview'' else ''no_coordinates'')"
    if "\<not> (q = [] \<or> length (trim q) < 3 \<or> q = ''I am'' \<or> q = ''breathe'')"
       "web_search env (''exact coordinates latitude and longitude of '' @ q) = Inr (Some ov)"
       "coords_llm env (coords_prompt ov) = Inl e"
    using that by (simp add: searchLocation_def no_fields_def extractCoordinatesWithAI_def)
  have f: "status (fst (searchPerson env nm)) = Some ''error''"
    if "\<not> (nm = [] \<or> length (trim nm) < 3 \<or> nm = ''I am'')"
       "web_search env (nm @ '' person biography information age background'') = Inl e"
    using that by (simp add: searchPerson_def no_fields_def)
  have g: "status (fst (searchPerson env nm)) = Some ''error''"
    if "\<not> (nm = [] \<or> length (trim nm) < 3 \<or> nm = ''I am'')"
       "web_search env (nm @ '' person biography information age background'') = Inr (Some ov)"
       "ov \<noteq> []" "person_llm env (person_prompt nm ov) = Inl e"
    using that by (simp add: searchPerson_def no_fields_def truthy_str_def or_else_def)
  from a b c d f g show ?thesis by blast
qed

theorem analysis_catches_failures_witness:
  "(\<exists>a. fst (analyzeConversation quiet_env three_messages) = Inr a)
   \<and> fst (analyzeConversation quiet_env three_messages) = Inr nothing_found
   \<and> status (fst (searchLocation quiet_env ''Pier 39'')) = Some ''error''
   \<and> status (fst (searchPerson quiet_env ''Bob Ross'')) = Some ''error''
   \<and> status (fst (searchLocation overview_env ''Pier 39'')) = Some ''no_coordinates''
   \<and> status (fst (searchPerson overview_env ''Bob Ross'')) = Some ''error''"
  using analysis_catches_failures [of quiet_env three_messages Rejected "''Pier 39''" "[]"
          "''Bob Ross''"]
        analysis_catches_failures [of overview_env three_messages Rejected "''Pier 39''"
          "''Pier 39 is a pier in San Francisco''" "''Bob Ross''"]
  by (simp add: quiet_env_def overview_env_def three_messages_def said_def trim_def
      is_whitespace_def)

section \<open>Properties of the conversation module\<close>

text \<open>
  What one tool call does to the session: it never changes \<open>isActive\<close>, only
  \<open>end-call\<close> touches \<open>hasEnded\<close> and \<open>endReason\<close>, and no tool sends a request to
  the model.
\<close>

lemma dispatch_effect:
  "dispatch env s tc = Inr (s', runs) \<Longrightarrow>
     isActive s' = isActive s
     \<and> (tc_name tc \<noteq> ''end-call'' \<longrightarrow> hasEnded s' = hasEnded s \<and> endReason s' = endReason s)
     \<and> (tc_name tc = ''end-call'' \<longrightarrow>
          hasEnded s' \<and> (\<exists>args. tc_arguments tc = Inr args \<and> endReason s' = map_of args ''reason''))
     \<and> filter is_completion runs = []"
  by (auto simp: dispatch_def push_tool_message_def split: sum.splits option.splits if_splits)

lemma run_tools_active:
  "run_tools env s tcs = (x, s', runs) \<Longrightarrow> isActive s' = isActive s \<and> filter is_completion runs = []"
proof (induction tcs arbitrary: s s' runs x)
  case Nil
  then show ?case by simp
next
  case (Cons tc tcs)
  show ?case
  proof (cases "dispatch env s tc")
    case (Inl e)
    with Cons.prems show ?thesis by simp
  next
    case (Inr p)
    obtain s1 r1 where p: "p = (s1, r1)" by (cases p)
    obtain x2 s2 r2 where rt: "run_tools env s1 tcs = (x2, s2, r2)" by (cases "run_tools env s1 tcs")
    from Cons.prems Inr p rt have eq: "x = x2" "s' = s2" "runs = r1 @ r2" by simp_all
    from dispatch_effect [of env s tc s1 r1] Inr p
    have d: "isActive s1 = isActive s" "filter is_completion r1 = []" by simp_all
    from Cons.IH [OF rt] d eq show ?thesis by simp
  qed
qed

lemma run_tools_append:
  "run_tools env s (xs @ ys) =
     (case run_tools env s xs of
        (Some e, s', runs) \<Rightarrow> (Some e, s', runs)
      | (None, s', runs) \<Rightarrow>
          (case run_tools env s' ys of (x, s'', runs') \<Rightarrow> (x, s'', runs @ runs')))"
proof (induction xs arbitrary: s)
  case Nil
  then show ?case by (simp split: prod.splits)
next
  case (Cons tc xs)
  show ?case
  proof (cases "dispatch env s tc")
    case (Inl e)
    then show ?thesis by simp
  next
    case (Inr p)
    obtain s1 r1 where p: "p = (s1, r1)" by (cases p)
    show ?thesis
      using Inr p Cons.IH [of s1]
      by (auto split: prod.splits option.splits)
  qed
qed

lemma run_tools_stays_ended:
  "run_tools env s tcs = (x, s', runs) \<Longrightarrow> hasEnded s \<Longrightarrow> endReason s = Some r \<Longrightarrow>
   \<forall>c\<in>set tcs. tc_name c = ''end-call'' \<longrightarrow>
      (\<forall>a. tc_arguments c = Inr a \<longrightarrow> map_of a ''reason'' = Some r) \<Longrightarrow>
   hasEnded s' \<and> endReason s' = Some r"
proof (induction tcs arbitrary: s s' runs x)
  case Nil
  then show ?case by simp
next
  case (Cons tc tcs)
  show ?case
  proof (cases "dispatch env s tc")
    case (Inl e)
    with Cons.prems show ?thesis by simp
  next
    case (Inr p)
    obtain s1 r1 where p: "p = (s1, r1)" by (cases p)
    obtain x2 s2 r2 where rt: "run_tools env s1 tcs = (x2, s2, r2)"
      by (cases "run_tools env s1 tcs")
    from Cons.prems(1) Inr p rt have eq: "s' = s2" by simp
    from dispatch_effect [of env s tc s1 r1] Inr p Cons.prems(2,3,4)
    have "hasEnded s1 \<and> endReason s1 = Some r"
      by (cases "tc_name tc = ''end-call''") auto
    moreover from Cons.prems(4) have "\<forall>c\<in>set tcs. tc_name c = ''end-call'' \<longrightarrow>
      (\<forall>a. tc_arguments c = Inr a \<longrightarrow> map_of a ''reason'' = Some r)" by simp
    ultimately show ?thesis using Cons.IH [OF rt] eq by simp
  qed
qed

lemma ended_is_terminal:
  "isActive s \<Longrightarrow> hasEnded s \<Longrightarrow>
   handleUserMessage env s u =
     (Inr \<lparr>response = ''This emergency call has already ended. Reason: '' @
             or_else (endReason s) ''Emergency services have been dispatched.'',
           reply_hasEnded = True\<rparr>, s, [])"
  by (simp add: handleUserMessage_def activate_def)

lemma activate_active: "isActive (activate s)"
  by (simp add: activate_def)

text \<open>
  Claim C3, as stated, fails when the loop over the tool calls does not reach the
  \<open>end-call\<close>: the loop stands in no \<open>try\<close>, and a call listed before it whose
  arguments do not parse throws out of \<open>handleUserMessage\<close>. The model has asked for
  \<open>end-call\<close> with a reason, yet \<open>hasEnded\<close> stays false, no reason is recorded, and the
  next turn sends its requests to the model.
\<close>

theorem end_call_not_reached:
  "chat (requesting [garbled, end_request]) True
       (history (activate initialState) @ [user_entry ''Thanks''])
     = Inr [\<lparr>chat_role = Assistant, chat_content = None,
             tool_calls = Some [garbled, end_request], tool_call_id = None\<rparr>]
   \<and> fst (handleUserMessage (requesting [garbled, end_request]) initialState ''Thanks'')
       = Inl SyntaxError
   \<and> \<not> hasEnded (fst (snd (handleUserMessage (requesting [garbled, end_request]) initialState ''Thanks'')))
   \<and> endReason (fst (snd (handleUserMessage (requesting [garbled, end_request]) initialState ''Thanks'')))
       = None
   \<and> length (filter is_completion (snd (snd (handleUserMessage insistent_env
        (fst (snd (handleUserMessage (requesting [garbled, end_request]) initialState ''Thanks'')))
        ''Hello?'')))) = 2"
  by (simp add: handleUserMessage_def activate_def initialState_def insistent_env_def
      requesting_def end_request_def garbled_def
      offline_env_def asks_def user_entry_def dispatch_def push_tool_message_def
      handleToolResponse_def)

text \<open>
  Claim C3, amended. Take a turn of a call that has not ended, whose model reply asks
  for the \<open>end-call\<close> tool with reason \<open>r\<close>, the tool calls listed before it running
  without an exception and no \<open>end-call\<close> listed after it carrying another reason. After
  the turn, whether or not a call listed after the \<open>end-call\<close> throws, \<open>hasEnded\<close> is true
  and \<open>endReason\<close> is \<open>r\<close>; an answer of the turn says ended; and every later
  \<open>handleUserMessage\<close>, whatever the model and the message, answers with the same text
  and \<open>hasEnded = true\<close>, sends no request and leaves the session (so also its messages)
  as it was.
\<close>

theorem end_call_is_terminal:
  assumes live: "\<not> hasEnded (activate s)"
    and reply: "chat env True (history (activate s) @ [user_entry u]) = Inr (m # others)"
    and calls: "tool_calls m = Some (pre @ tc # post)"
    and reached: "fst (run_tools env
                    ((activate s)\<lparr>history := history (activate s) @ [user_entry u, m]\<rparr>) pre) = None"
    and asked: "tc_name tc = ''end-call''" "tc_arguments tc = Inr args"
               "map_of args ''reason'' = Some r"
    and later: "\<forall>c\<in>set post. tc_name c = ''end-call'' \<longrightarrow>
                  (\<forall>a. tc_arguments c = Inr a \<longrightarrow> map_of a ''reason'' = Some r)"
    and turn: "handleUserMessage env s u = (res, s', out)"
  shows "hasEnded s' \<and> endReason s' = Some r
         \<and> (\<forall>rep. res = Inr rep \<longrightarrow> reply_hasEnded rep)
         \<and> (\<forall>env' u'. handleUserMessage env' s' u' =
              (Inr \<lparr>response = ''This emergency call has already ended. Reason: '' @
                      (if r = [] then ''Emergency services have been dispatched.'' else r),
                    reply_hasEnded = True\<rparr>, s', []))"
proof -
  define s3 where "s3 = (activate s)\<lparr>history := history (activate s) @ [user_entry u, m]\<rparr>"
  obtain c cs where tcs: "pre @ tc # post = c # cs" by (cases "pre @ tc # post") auto
  obtain xa sa ra where pre: "run_tools env s3 pre = (xa, sa, ra)"
    by (cases "run_tools env s3 pre")
  with reached have xa: "xa = None" by (simp add: s3_def)
  from asked have d: "dispatch env sa tc =
      Inr (push_tool_message (sa\<lparr>hasEnded := True, endReason := Some r\<rparr>) tc
             (endCall env (Some r)), [ToolRun ''end-call'' (Some r)])"
    by (simp add: dispatch_def)
  define sb where "sb = push_tool_message (sa\<lparr>hasEnded := True, endReason := Some r\<rparr>) tc
             (endCall env (Some r))"
  have sb: "hasEnded sb" "endReason sb = Some r" by (simp_all add: sb_def push_tool_message_def)
  obtain x s4 rc where post: "run_tools env sb post = (x, s4, rc)"
    by (cases "run_tools env sb post")
  have whole: "run_tools env s3 (pre @ tc # post) = (x, s4, ra @ ToolRun ''end-call'' (Some r) # rc)"
    using pre xa d post by (simp add: run_tools_append sb_def)
  have fin: "hasEnded s4 \<and> endReason s4 = Some r"
    using run_tools_stays_ended [OF post sb later] .
  have act: "isActive s4"
    using run_tools_active [OF whole] by (simp add: s3_def activate_active)
  have res: "s' = s4 \<and> (\<forall>rep. res = Inr rep \<longrightarrow> reply_hasEnded rep)"
  proof (cases x)
    case None
    with turn live reply calls tcs whole fin show ?thesis
      by (auto simp: handleUserMessage_def Let_def s3_def handleToolResponse_def
          simp del: run_tools.simps)
  next
    case (Some e)
    with turn live reply calls tcs whole show ?thesis
      by (auto simp: handleUserMessage_def Let_def s3_def simp del: run_tools.simps)
  qed
  from res fin act ended_is_terminal [of s4] show ?thesis
    by (simp add: or_else_def)
qed

theorem end_call_is_terminal_witness:
  "hasEnded (fst (snd (handleUserMessage closing_env initialState ''Thanks, they are here'')))
   \<and> endReason (fst (snd (handleUserMessage closing_env initialState ''Thanks, they are here'')))
       = Some ''help dispatched''
   \<and> handleUserMessage insistent_env
        (fst (snd (handleUserMessage closing_env initialState ''Thanks, they are here''))) ''Hello?''
      = (Inr \<lparr>response = ''This emergency call has already ended. Reason: help dispatched'',
              reply_hasEnded = True\<rparr>,
         fst (snd (handleUserMessage closing_env initialState ''Thanks, they are here'')), [])
   \<and> fst (handleUserMessage (requesting [end_request, garbled]) initialState ''Thanks'')
       = Inl SyntaxError
   \<and> hasEnded (fst (snd
         (handleUserMessage (requesting [end_request, garbled]) initialState ''Thanks'')))
   \<and> handleUserMessage insistent_env
        (fst (snd (handleUserMessage (requesting [end_request, garbled]) initialState ''Thanks'')))
        ''Hello?''
      = (Inr \<lparr>response = ''This emergency call has already ended. Reason: help dispatched'',
              reply_hasEnded = True\<rparr>,
         fst (snd (handleUserMessage (requesting [end_request, garbled]) initialState ''Thanks'')),
         [])"
proof -
  have live: "\<not> hasEnded (activate initialState)"
    by (simp add: activate_def initialState_def)
  have asked: "tc_name end_request = ''end-call''"
    "tc_arguments end_request = Inr [(''reason'', ''help dispatched'')]"
    "map_of [(''reason'', ''help dispatched'')] ''reason'' = Some ''help dispatched''"
    by (simp_all add: end_request_def)
  define m1 where "m1 = asks ''end-call'' ''reason'' ''help dispatched''"
  define X1 where "X1 = handleUserMessage closing_env initialState ''Thanks, they are here''"
  have reply1: "chat closing_env True
       (history (activate initialState) @ [user_entry ''Thanks, they are here'']) = Inr (m1 # [])"
    by (simp add: closing_env_def offline_env_def m1_def)
  have calls1: "tool_calls m1 = Some ([] @ end_request # [])"
    by (simp add: m1_def asks_def end_request_def)
  have reached1: "fst (run_tools closing_env
       ((activate initialState)\<lparr>history := history (activate initialState) @
          [user_entry ''Thanks, they are here'', m1]\<rparr>) []) = None"
    by simp
  have later1: "\<forall>c\<in>set []. tc_name c = ''end-call'' \<longrightarrow>
       (\<forall>a. tc_arguments c = Inr a \<longrightarrow> map_of a ''reason'' = Some ''help dispatched'')"
    by simp
  have turn1: "handleUserMessage closing_env initialState ''Thanks, they are here''
       = (fst X1, fst (snd X1), snd (snd X1))"
    by (simp add: X1_def)
  note t1 = end_call_is_terminal [OF live reply1 calls1 reached1 asked later1 turn1]
  define env2 where "env2 = requesting [end_request, garbled]"
  define m2 where "m2 = \<lparr>chat_role = Assistant, chat_content = None,
                     tool_calls = Some [end_request, garbled], tool_call_id = None\<rparr>"
  define X2 where "X2 = handleUserMessage env2 initialState ''Thanks''"
  have reply2: "chat env2 True (history (activate initialState) @ [user_entry ''Thanks''])
       = Inr (m2 # [])"
    by (simp add: env2_def requesting_def offline_env_def m2_def)
  have calls2: "tool_calls m2 = Some ([] @ end_request # [garbled])"
    by (simp add: m2_def)
  have reached2: "fst (run_tools env2
       ((activate initialState)\<lparr>history := history (activate initialState) @
          [user_entry ''Thanks'', m2]\<rparr>) []) = None"
    by simp
  have later2: "\<forall>c\<in>set [garbled]. tc_name c = ''end-call'' \<longrightarrow>
       (\<forall>a. tc_arguments c = Inr a \<longrightarrow> map_of a ''reason'' = Some ''help dispatched'')"
    by (simp add: garbled_def)
  have turn2: "handleUserMessage env2 initialState ''Thanks''
       = (fst X2, fst (snd X2), snd (snd X2))"
    by (simp add: X2_def)
  have res2: "fst X2 = Inl SyntaxError"
    by (simp add: X2_def env2_def handleUserMessage_def activate_def initialState_def
      requesting_def end_request_def garbled_def offline_env_def user_entry_def dispatch_def
      push_tool_message_def)
  note t2 = end_call_is_terminal [OF live reply2 calls2 reached2 asked later2 turn2]
  from t1 t2 res2 show ?thesis unfolding X1_def X2_def env2_def by simp
qed

lemma handleToolResponse_rounds:
  "handleToolResponse env s = (r, s', out) \<Longrightarrow> length (filter is_completion out) \<le> 1"
  by (auto simp: handleToolResponse_def split: sum.splits list.splits if_splits)

lemma handleUserMessage_rounds:
  "length (filter is_completion (snd (snd (handleUserMessage env s u)))) \<le> 2"
proof (cases "hasEnded (activate s)")
  case True
  then show ?thesis by (simp add: handleUserMessage_def Let_def)
next
  case False
  define h where "h = history (activate s) @ [user_entry u]"
  show ?thesis
  proof (cases "chat env True h")
    case (Inl e)
    with False show ?thesis by (simp add: handleUserMessage_def Let_def h_def)
  next
    case (Inr choices)
    show ?thesis
    proof (cases choices)
      case Nil
      with False Inr show ?thesis by (simp add: handleUserMessage_def Let_def h_def)
    next
      case (Cons m others)
      define s3 where "s3 = (activate s)\<lparr>history := h @ [m]\<rparr>"
      show ?thesis
      proof (cases "\<exists>tc tcs. tool_calls m = Some (tc # tcs)")
        case no: False
        with False Inr Cons show ?thesis
          by (auto simp: handleUserMessage_def Let_def h_def split: option.splits list.splits)
      next
        case True
        then obtain tc tcs where tcs: "tool_calls m = Some (tc # tcs)" by blast
        obtain x s4 runs where rt: "run_tools env s3 (tc # tcs) = (x, s4, runs)"
          by (cases "run_tools env s3 (tc # tcs)")
        obtain r s5 out where tr: "handleToolResponse env s4 = (r, s5, out)"
          by (cases "handleToolResponse env s4")
        from run_tools_active [OF rt] have quiet: "filter is_completion runs = []" by simp
        from handleToolResponse_rounds [OF tr] have one: "length (filter is_completion out) \<le> 1" .
        from False Inr Cons tcs rt tr quiet one show ?thesis
          by (cases x) (simp_all add: handleUserMessage_def Let_def h_def s3_def del: run_tools.simps)
      qed
    qed
  qed
qed

text \<open>
  Claim C5, as stated, fails: no dispatcher of the repository runs four rounds or
  surfaces a text after them. A model that asks for a tool in every reply gets two
  requests from \<open>handleUserMessage\<close>; the tool call of its second reply is stored with
  the reply and never run, and the answer is the fixed fallback.
\<close>

theorem two_rounds_not_four:
  "length (filter is_completion
       (snd (snd (handleUserMessage insistent_env initialState ''My neighbour Bob collapsed'')))) = 2
   \<and> fst (handleUserMessage insistent_env initialState ''My neighbour Bob collapsed'')
       = Inr \<lparr>response = ''I'm processing your emergency. Stay on the line.'', reply_hasEnded = False\<rparr>
   \<and> tool_calls (last (history (fst (snd
         (handleUserMessage insistent_env initialState ''My neighbour Bob collapsed'')))))
       = Some [\<lparr>tc_id = ''call_1'', tc_name = ''search-person'', tc_arguments = Inr [(''query'', ''Bob'')]\<rparr>]"
  by (simp add: handleUserMessage_def activate_def initialState_def insistent_env_def
      offline_env_def asks_def user_entry_def dispatch_def push_tool_message_def
      handleToolResponse_def or_else_def)

text \<open>
  Claim C5, amended. A turn of \<open>handleUserMessage\<close> sends at most two requests to the
  model. \<open>analyzeConversation\<close> sends none or one, with \<open>maxSteps\<close> 4. When the first
  reply of a turn asks for tools, they run without an exception and do not end the call,
  the turn sends the second request and answers with the text of the second reply, or
  with \<open>I'm processing your emergency. Stay on the line.\<close> when that reply has no
  text; it runs nothing after the second request.
\<close>

theorem two_rounds_per_turn:
  "length (filter is_completion (snd (snd (handleUserMessage env s u)))) \<le> 2
   \<and> (snd (analyzeConversation renv msgs) = []
        \<or> snd (analyzeConversation renv msgs) = [AnalyzeText (map (\<lambda>m. (role m, content m)) msgs) 4])
   \<and> (\<not> hasEnded (activate s) \<longrightarrow>
       chat env True (history (activate s) @ [user_entry u]) = Inr (m # others) \<longrightarrow>
       tool_calls m = Some (tc # tcs) \<longrightarrow>
       run_tools env ((activate s)\<lparr>history := history (activate s) @ [user_entry u, m]\<rparr>) (tc # tcs)
         = (None, s4, runs) \<longrightarrow>
       \<not> hasEnded s4 \<longrightarrow>
       chat env False (history s4) = Inr (m2 # others2) \<longrightarrow>
       handleUserMessage env s u =
         (Inr \<lparr>response = or_else (chat_content m2) ''I'm processing your emergency. Stay on the line.'',
               reply_hasEnded = False\<rparr>,
          s4\<lparr>history := history s4 @ [m2]\<rparr>,
          ChatCompletion True (history (activate s) @ [user_entry u]) # runs @
            [ChatCompletion False (history s4)]))"
proof -
  have b: "snd (analyzeConversation renv msgs) = []
        \<or> snd (analyzeConversation renv msgs) = [AnalyzeText (map (\<lambda>m. (role m, content m)) msgs) 4]"
    by (auto simp: analyzeConversation_def analyzeConversation_try_def Let_def
        split: sum.splits prod.splits)
  have c: "handleUserMessage env s u =
         (Inr \<lparr>response = or_else (chat_content m2) ''I'm processing your emergency. Stay on the line.'',
               reply_hasEnded = False\<rparr>,
          s4\<lparr>history := history s4 @ [m2]\<rparr>,
          ChatCompletion True (history (activate s) @ [user_entry u]) # runs @
            [ChatCompletion False (history s4)])"
    if "\<not> hasEnded (activate s)"
       "chat env True (history (activate s) @ [user_entry u]) = Inr (m # others)"
       "tool_calls m = Some (tc # tcs)"
       "run_tools env ((activate s)\<lparr>history := history (activate s) @ [user_entry u, m]\<rparr>) (tc # tcs)
         = (None, s4, runs)"
       "\<not> hasEnded s4"
       "chat env False (history s4) = Inr (m2 # others2)"
    using that by (simp add: handleUserMessage_def Let_def handleToolResponse_def del: run_tools.simps)
  from handleUserMessage_rounds b c show ?thesis by blast
qed

theorem two_rounds_per_turn_witness:
  "length (filter is_completion
       (snd (snd (handleUserMessage insistent_env initialState ''My neighbour Bob collapsed'')))) \<le> 2
   \<and> snd (analyzeConversation quiet_env [said ''u1'' ''a'', said ''u2'' ''b'', said ''u3'' ''c''])
       = [AnalyzeText [(User, ''a''), (User, ''b''), (User, ''c'')] 4]
   \<and> fst (handleUserMessage insistent_env initialState ''My neighbour Bob collapsed'')
       = Inr \<lparr>response = ''I'm processing your emergency. Stay on the line.'', reply_hasEnded = False\<rparr>"
  using two_rounds_per_turn [of insistent_env initialState "''My neighbour Bob collapsed''"
      quiet_env "[said ''u1'' ''a'', said ''u2'' ''b'', said ''u3'' ''c'']"
      "asks ''search-person'' ''query'' ''Bob''" "[]"
      "\<lparr>tc_id = ''call_1'', tc_name = ''search-person'', tc_arguments = Inr [(''query'', ''Bob'')]\<rparr>" "[]"
      "fst (snd (run_tools insistent_env
          ((activate initialState)\<lparr>history := history (activate initialState) @
             [user_entry ''My neighbour Bob collapsed'', asks ''search-person'' ''query'' ''Bob'']\<rparr>)
          [\<lparr>tc_id = ''call_1'', tc_name = ''search-person'', tc_arguments = Inr [(''query'', ''Bob'')]\<rparr>]))"
      "[ToolRun ''search-person'' (Some ''Bob'')]"
      "asks ''search-person'' ''query'' ''Bob''" "[]"]
  by (simp add: handleUserMessage_def activate_def initialState_def insistent_env_def
      offline_env_def asks_def user_entry_def dispatch_def push_tool_message_def
      handleToolResponse_def or_else_def analyzeConversation_def analyzeConversation_try_def
      quiet_env_def said_def)

section \<open>Properties of the call page\<close>

subsection \<open>Enrichment\<close>













subsection \<open>Turn coordination\<close>

text \<open>
  The test of \<open>respond\<close> reads only the bindings of its own call, which no later step
  changes. In a call made by the turn check (nobody speaking, a last message with an id)
  it is false at the start and therefore at every \<open>await\<close>.
\<close>

lemma started_never_stale:
  "\<not> isSpeaking h \<Longrightarrow> messages h \<noteq> [] \<Longrightarrow> msg_id (last (messages h)) \<noteq> [] \<Longrightarrow>
   stale (last (attempts (respond h))) = Inr False"
  by (simp add: respond_def stale_def last_id_def)

lemma resume_keeps_bindings:
  "respond_resume a r h = (a', h') \<Longrightarrow>
   seen_messages a' = seen_messages a \<and> seen_isSpeaking a' = seen_isSpeaking a
   \<and> lastID a' = lastID a"
  by (auto simp: respond_resume_def
      split: progress.splits settled.splits sum.splits bool.splits option.splits)

lemmas page_defs = run_home_def step_home_def handle_def after_render_def turn_check_def
  respond_def respond_resume_def stale_def last_id_def mounted_def prompt_entry_def
  truthy_str_def two_utterances_def interrupted_def first_reply_def second_reply_def

text \<open>
  Claim C2 (the code departs from it). The caller speaks twice and starts a third
  time; the first call of \<open>respond\<close>, made for \<open>u1\<close>, is still waiting for its text. The
  timeline now ends with \<open>u2\<close> and \<open>isSpeaking\<close> is true, yet the three tests of that
  call, which read the \<open>messages\<close> and \<open>isSpeaking\<close> of the render that made the call,
  pass: it appends its reply after \<open>u2\<close> and starts the playback while the caller
  speaks.
\<close>

theorem checks_read_the_render:
  "last_id (messages (run_home mounted interrupted)) = Some ''u2''
   \<and> isSpeaking (run_home mounted interrupted)
   \<and> lastID (attempts (run_home mounted interrupted) ! 0) = Some ''u1''
   \<and> map (\<lambda>m. (role m, msg_id m)) (messages (run_home mounted (interrupted @ first_reply)))
       = [(User, ''u1''), (User, ''u2''), (Assistant, ''a1'')]
   \<and> map_option paused (audioSpeaker (run_home mounted (interrupted @ first_reply))) = Some False
   \<and> isSpeaking (run_home mounted (interrupted @ first_reply))
   \<and> progress (attempts (run_home mounted (interrupted @ first_reply)) ! 0) = Committed"
  by (simp add: page_defs)

text \<open>
  Claim C1 (the code departs from it). After two utterances two calls of \<open>respond\<close>
  are waiting, the first for \<open>u1\<close> and the second for \<open>u2\<close>. Both run to their end and
  both append: the reply made for \<open>u1\<close> is committed when the latest caller entry is
  \<open>u2\<close>, and the timeline ends with two assistant entries in a row.
\<close>

theorem stale_reply_is_committed:
  "map msg_id (messages (run_home mounted two_utterances)) = [''u1'', ''u2'']
   \<and> map lastID (attempts (run_home mounted two_utterances)) = [Some ''u1'', Some ''u2'']
   \<and> map (\<lambda>m. (role m, msg_id m))
         (messages (run_home mounted (two_utterances @ first_reply @ second_reply)))
       = [(User, ''u1''), (User, ''u2''), (Assistant, ''a1''), (Assistant, ''a2'')]
   \<and> map progress (attempts (run_home mounted (two_utterances @ first_reply @ second_reply)))
       = [Committed, Committed]"
  by (simp add: page_defs)

end
